theory Spec2Isabelle
  imports Complex_Main
begin

section \<open>Data model\<close>

text \<open>
  The limiter of \<^verbatim>\<open>createExpressLimiter\<close> keeps two JavaScript \<^verbatim>\<open>Map\<close>s in its closure:
  \<^verbatim>\<open>requestStore\<close> (key to array of timestamps) and \<^verbatim>\<open>cooldownStore\<close> (key to the
  time the block ends). A \<^verbatim>\<open>Map\<close> is a partial function here, \<^verbatim>\<open>Map.delete\<close> is the
  update to \<open>None\<close>. Timestamps (\<^verbatim>\<open>Date.now()\<close>) and the numeric options are integers
  (milliseconds, counts); \<^verbatim>\<open>Date.now()\<close> is a parameter of the middleware.
\<close>

type_synonym key = string
type_synonym timestamp = int

record request =
  ip :: string
  path :: string

record config =
  max_cfg :: int
  windowMs :: int
  cooldownMs :: int
  message :: string
  statusCode :: int
  keyGen :: "request \<Rightarrow> key"
  skip :: "request \<Rightarrow> bool"

record stores =
  requestStore :: "key \<rightharpoonup> timestamp list"
  cooldownStore :: "key \<rightharpoonup> timestamp"

text \<open>
  What the middleware does with the request: it calls \<^verbatim>\<open>next()\<close>, or it answers
  \<^verbatim>\<open>res.status(statusCode).json({status, message, remainingTime})\<close>.
\<close>

datatype outcome =
  Next
| Json (status: int) (body: string) (remainingTime: int)

text \<open>A value of JavaScript, as far as \<^verbatim>\<open>obj.framework === "express"\<close> can tell values apart.\<close>

datatype js_value = JUndefined | JNull | JBool bool | JNumber int | JString string

text \<open>
  The options object: a property that is missing (or \<^verbatim>\<open>undefined\<close>) is \<open>None\<close>, and the
  destructuring of \<^verbatim>\<open>createExpressLimiter\<close> gives it its default.
\<close>

record options =
  framework :: js_value
  opt_max :: "int option"
  opt_windowMs :: "int option"
  opt_cooldownMs :: "int option"
  opt_message :: "string option"
  opt_statusCode :: "int option"
  opt_keyGen :: "(request \<Rightarrow> key) option"
  opt_skip :: "(request \<Rightarrow> bool) option"

section \<open>The middleware\<close>

definition emptyStores :: stores where
  "emptyStores = \<lparr>requestStore = Map.empty, cooldownStore = Map.empty\<rparr>"

text \<open>\<^verbatim>\<open>Math.ceil(ms / 1000)\<close>.\<close>

definition ceilSeconds :: "int \<Rightarrow> int" where
  "ceilSeconds ms = \<lceil>real_of_int ms / 1000\<rceil>"

text \<open>
  Lines 54 to 75 of \<^verbatim>\<open>rateLimiter\<close>: the window record is created empty when the key has
  none, a pruned copy is made by \<^verbatim>\<open>filter\<close>, and either the threshold is reached (a
  cooldown is stored unless the key has one, and the request is refused) or the current
  time is pushed on the copy and the copy is stored.
\<close>

definition checkWindow :: "config \<Rightarrow> key \<Rightarrow> timestamp \<Rightarrow> stores \<Rightarrow> outcome \<times> stores" where
  "checkWindow cfg k now st =
    (let stored = (case requestStore st k of None \<Rightarrow> [] | Some ts \<Rightarrow> ts);
         st1 = (case requestStore st k of
                  None \<Rightarrow> st\<lparr>requestStore := (requestStore st)(k \<mapsto> [])\<rparr>
                | Some ts \<Rightarrow> st);
         timestamps = filter (\<lambda>ts. now - ts < windowMs cfg) stored
     in if max_cfg cfg \<le> int (length timestamps) then
          (let blockedUntil = (case cooldownStore st1 k of
                                 None \<Rightarrow> now + cooldownMs cfg
                               | Some b \<Rightarrow> b);
               st2 = (case cooldownStore st1 k of
                        None \<Rightarrow> st1\<lparr>cooldownStore := (cooldownStore st1)(k \<mapsto> now + cooldownMs cfg)\<rparr>
                      | Some b \<Rightarrow> st1);
               remaining = blockedUntil - now
           in (Json (statusCode cfg) (message cfg) (ceilSeconds remaining), st2))
        else
          (Next, st1\<lparr>requestStore := (requestStore st1)(k \<mapsto> timestamps @ [now])\<rparr>))"

text \<open>The two deletions of lines 49 and 50.\<close>

definition forget :: "key \<Rightarrow> stores \<Rightarrow> stores" where
  "forget k st =
     st\<lparr>cooldownStore := (cooldownStore st)(k := None),
        requestStore := (requestStore st)(k := None)\<rparr>"

definition rateLimiter :: "config \<Rightarrow> request \<Rightarrow> timestamp \<Rightarrow> stores \<Rightarrow> outcome \<times> stores" where
  "rateLimiter cfg req now st =
    (if skip cfg req then (Next, st)
     else
       (let k = keyGen cfg req in
        case cooldownStore st k of
          Some blockedUntil \<Rightarrow>
            (let remainingMs = blockedUntil - now in
             if remainingMs > 0 then
               (Json (statusCode cfg) (message cfg) (ceilSeconds remainingMs), st)
             else checkWindow cfg k now (forget k st))
        | None \<Rightarrow> checkWindow cfg k now st))"

text \<open>
  \<^verbatim>\<open>createExpressLimiter\<close>: the defaults of the destructuring, and the two new, empty
  stores the returned middleware closes over.
\<close>

definition createExpressLimiter :: "options \<Rightarrow> config \<times> stores" where
  "createExpressLimiter opts =
    (\<lparr>max_cfg = (case opt_max opts of None \<Rightarrow> 100 | Some m \<Rightarrow> m),
      windowMs = (case opt_windowMs opts of None \<Rightarrow> 60000 | Some w \<Rightarrow> w),
      cooldownMs = (case opt_cooldownMs opts of None \<Rightarrow> 60000 | Some c \<Rightarrow> c),
      message = (case opt_message opts of
                   None \<Rightarrow> ''Rate limit exceeded. Please try again later.''
                 | Some m \<Rightarrow> m),
      statusCode = (case opt_statusCode opts of None \<Rightarrow> 429 | Some s \<Rightarrow> s),
      keyGen = (case opt_keyGen opts of None \<Rightarrow> ip | Some g \<Rightarrow> g),
      skip = (case opt_skip opts of None \<Rightarrow> (\<lambda>req. False) | Some p \<Rightarrow> p)\<rparr>,
     emptyStores)"

text \<open>
  \<^verbatim>\<open>rateLimit\<close> of \<^verbatim>\<open>ratelimit.js\<close>: a function body that ends without \<^verbatim>\<open>return\<close> gives
  \<^verbatim>\<open>undefined\<close>, which is \<open>None\<close>.
\<close>

definition rateLimit :: "options \<Rightarrow> (config \<times> stores) option" where
  "rateLimit obj =
     (if framework obj = JString ''express'' then Some (createExpressLimiter obj) else None)"

text \<open>A sequence of calls of one middleware, each with its request and its time.\<close>

fun run :: "config \<Rightarrow> (request \<times> timestamp) list \<Rightarrow> stores \<Rightarrow> outcome list \<times> stores" where
  "run cfg [] st = ([], st)"
| "run cfg ((req, now) # calls) st =
     (let (out, st1) = rateLimiter cfg req now st;
          (outs, st2) = run cfg calls st1
      in (out # outs, st2))"

section \<open>Example configurations and states\<close>

text \<open>
  The configuration of the example scenarios: three requests a second, two seconds of
  cooldown, the key is the address of the caller and no request is exempt.
\<close>

definition scenarioConfig :: config where
  "scenarioConfig =
     \<lparr>max_cfg = 3, windowMs = 1000, cooldownMs = 2000,
      message = ''Rate limit exceeded. Please try again later.'', statusCode = 429,
      keyGen = ip, skip = (\<lambda>req. False)\<rparr>"

text \<open>One request a second, with a cooldown longer than the window.\<close>

definition strictConfig :: config where
  "strictConfig =
     \<lparr>max_cfg = 1, windowMs = 1000, cooldownMs = 5000,
      message = ''Rate limit exceeded. Please try again later.'', statusCode = 429,
      keyGen = ip, skip = (\<lambda>req. False)\<rparr>"

text \<open>A limit of zero requests.\<close>

definition closedConfig :: config where
  "closedConfig =
     \<lparr>max_cfg = 0, windowMs = 1000, cooldownMs = 2000,
      message = ''Rate limit exceeded. Please try again later.'', statusCode = 429,
      keyGen = ip, skip = (\<lambda>req. False)\<rparr>"

definition requestFrom :: "string \<Rightarrow> request" where
  "requestFrom a = \<lparr>ip = a, path = ''/''\<rparr>"

text \<open>The stores once key \<open>K\<close> has used its three requests and was refused at time 300.\<close>

definition blockedStores :: stores where
  "blockedStores =
     \<lparr>requestStore = [''K'' \<mapsto> [0, 100, 200]], cooldownStore = [''K'' \<mapsto> 2300]\<rparr>"

text \<open>The stores once key \<open>K\<close> has used its three requests, before any refusal.\<close>

definition fullStores :: stores where
  "fullStores = \<lparr>requestStore = [''K'' \<mapsto> [0, 100, 200]], cooldownStore = Map.empty\<rparr>"

text \<open>Key \<open>A\<close> with one request; and the same beside a key \<open>B\<close> that is blocked.\<close>

definition oneKeyStores :: stores where
  "oneKeyStores = \<lparr>requestStore = [''A'' \<mapsto> [0]], cooldownStore = Map.empty\<rparr>"

definition twoKeyStores :: stores where
  "twoKeyStores =
     \<lparr>requestStore = [''A'' \<mapsto> [0], ''B'' \<mapsto> [50, 60, 70]], cooldownStore = [''B'' \<mapsto> 2080]\<rparr>"

definition expressOptions :: options where
  "expressOptions =
     \<lparr>framework = JString ''express'', opt_max = Some 3, opt_windowMs = Some 1000,
      opt_cooldownMs = Some 2000, opt_message = None, opt_statusCode = None,
      opt_keyGen = None, opt_skip = None\<rparr>"

text \<open>
  Every window record is empty or holds at most \<^verbatim>\<open>max\<close> timestamps: the invariant of the
  request store.
\<close>

definition windowsBounded :: "config \<Rightarrow> stores \<Rightarrow> bool" where
  "windowsBounded cfg st \<longleftrightarrow>
     (\<forall>k ts. requestStore st k = Some ts \<longrightarrow> ts = [] \<or> int (length ts) \<le> max_cfg cfg)"

section \<open>Auxiliary facts\<close>

lemma ceilSeconds_div: "ceilSeconds ms = - ((- ms) div 1000)"
  unfolding ceilSeconds_def
  by (metis ceiling_divide_eq_div of_int_numeral)

lemma ceilSeconds_pos: "0 < ms \<Longrightarrow> 1 \<le> ceilSeconds ms"
  unfolding ceilSeconds_div by linarith

lemma rateLimiter_blocked:
  "cooldownStore st (keyGen cfg req) = Some b \<Longrightarrow> 0 < b - now \<Longrightarrow>
   snd (rateLimiter cfg req now st) = st"
  by (simp add: rateLimiter_def)

lemma windowsBounded_empty: "windowsBounded cfg emptyStores"
  by (simp add: windowsBounded_def emptyStores_def)

lemma checkWindow_windowsBounded:
  assumes "windowsBounded cfg st"
  shows "windowsBounded cfg (snd (checkWindow cfg k now st))"
  using assms unfolding windowsBounded_def checkWindow_def Let_def
  by (auto split: option.splits if_splits)

lemma forget_windowsBounded:
  "windowsBounded cfg st \<Longrightarrow> windowsBounded cfg (forget k st)"
  unfolding windowsBounded_def forget_def by (auto split: if_splits)

lemma rateLimiter_windowsBounded:
  assumes "windowsBounded cfg st"
  shows "windowsBounded cfg (snd (rateLimiter cfg req now st))"
  using assms
  by (simp add: rateLimiter_def Let_def checkWindow_windowsBounded forget_windowsBounded
      split: option.splits)

lemma run_windowsBounded:
  "windowsBounded cfg st \<Longrightarrow> windowsBounded cfg (snd (run cfg calls st))"
proof (induction calls arbitrary: st)
  case Nil
  then show ?case by simp
next
  case (Cons c calls)
  obtain req now where c: "c = (req, now)" by (cases c)
  have "windowsBounded cfg (snd (rateLimiter cfg req now st))"
    using Cons.prems by (rule rateLimiter_windowsBounded)
  then have "windowsBounded cfg (snd (run cfg calls (snd (rateLimiter cfg req now st))))"
    by (rule Cons.IH)
  then show ?case using c by (simp add: split_beta)
qed

lemma filter_full:
  "length xs \<le> length (filter P xs) \<Longrightarrow> \<forall>x \<in> set xs. P x"
  by (metis filter_id_conv length_filter_le le_antisym length_filter_less not_less)

lemma checkWindow_fresh:
  assumes "windowsBounded cfg st" "0 < windowMs cfg"
  shows "\<exists>ts. requestStore (snd (checkWindow cfg k now st)) k = Some ts \<and>
              (\<forall>t \<in> set ts. now - t < windowMs cfg)"
proof (cases "requestStore st k")
  case None
  then show ?thesis using assms(2)
    by (simp add: checkWindow_def Let_def split: option.splits)
next
  case (Some ts)
  show ?thesis
  proof (cases "max_cfg cfg \<le> int (length (filter (\<lambda>t. now - t < windowMs cfg) ts))")
    case True
    from assms(1) Some have "ts = [] \<or> int (length ts) \<le> max_cfg cfg"
      by (simp add: windowsBounded_def)
    with True have "length ts \<le> length (filter (\<lambda>t. now - t < windowMs cfg) ts)"
      by auto
    then have "\<forall>t \<in> set ts. now - t < windowMs cfg" by (rule filter_full)
    with True Some show ?thesis
      by (simp add: checkWindow_def Let_def split: option.splits)
  next
    case False
    with Some assms(2) show ?thesis by (simp add: checkWindow_def Let_def)
  qed
qed

text \<open>
  A key without cooldown whose window record is below the threshold: the request passes,
  no cooldown appears and the record grows by one timestamp at most.
\<close>

lemma rateLimiter_under:
  assumes "cooldownStore st k = None" "keyGen cfg req = k" "\<not> skip cfg req"
    "int (length (case requestStore st k of None \<Rightarrow> [] | Some ts \<Rightarrow> ts)) < max_cfg cfg"
  shows "fst (rateLimiter cfg req now st) = Next"
    and "cooldownStore (snd (rateLimiter cfg req now st)) k = None"
    and "int (length (case requestStore (snd (rateLimiter cfg req now st)) k of
                        None \<Rightarrow> [] | Some ts \<Rightarrow> ts))
          \<le> int (length (case requestStore st k of None \<Rightarrow> [] | Some ts \<Rightarrow> ts)) + 1"
proof -
  let ?stored = "case requestStore st k of None \<Rightarrow> [] | Some ts \<Rightarrow> ts"
  have le: "length (filter (\<lambda>t. now - t < windowMs cfg) ?stored) \<le> length ?stored"
    by (rule length_filter_le)
  with assms(4)
  have lt: "\<not> max_cfg cfg \<le> int (length (filter (\<lambda>t. now - t < windowMs cfg) ?stored))"
    by linarith
  show "fst (rateLimiter cfg req now st) = Next"
    using assms(1-3) lt by (simp add: rateLimiter_def checkWindow_def Let_def)
  show "cooldownStore (snd (rateLimiter cfg req now st)) k = None"
    using assms(1-3) lt
    by (simp add: rateLimiter_def checkWindow_def Let_def split: option.splits)
  show "int (length (case requestStore (snd (rateLimiter cfg req now st)) k of
                       None \<Rightarrow> [] | Some ts \<Rightarrow> ts))
          \<le> int (length ?stored) + 1"
    using assms(1-3) lt le
    by (simp add: rateLimiter_def checkWindow_def Let_def split: option.splits)
qed

lemma run_under:
  assumes "cooldownStore st k = None"
    and "int (length (case requestStore st k of None \<Rightarrow> [] | Some ts \<Rightarrow> ts))
           + int (length calls) \<le> max_cfg cfg"
    and "\<forall>(req, now) \<in> set calls. keyGen cfg req = k \<and> \<not> skip cfg req"
  shows "fst (run cfg calls st) = replicate (length calls) Next \<and>
         cooldownStore (snd (run cfg calls st)) k = None"
  using assms
proof (induction calls arbitrary: st)
  case Nil
  then show ?case by simp
next
  case (Cons c calls)
  obtain req now where c: "c = (req, now)" by (cases c)
  let ?st1 = "snd (rateLimiter cfg req now st)"
  from Cons.prems c have pre: "keyGen cfg req = k" "\<not> skip cfg req"
    "int (length (case requestStore st k of None \<Rightarrow> [] | Some ts \<Rightarrow> ts)) < max_cfg cfg"
    by auto
  note step = rateLimiter_under[OF Cons.prems(1) pre, of now]
  have "fst (run cfg calls ?st1) = replicate (length calls) Next \<and>
        cooldownStore (snd (run cfg calls ?st1)) k = None"
  proof (rule Cons.IH)
    show "cooldownStore ?st1 k = None" by (rule step(2))
    show "int (length (case requestStore ?st1 k of None \<Rightarrow> [] | Some ts \<Rightarrow> ts))
            + int (length calls) \<le> max_cfg cfg"
      using step(3) Cons.prems(2) by simp
    show "\<forall>(req, now) \<in> set calls. keyGen cfg req = k \<and> \<not> skip cfg req"
      using Cons.prems(3) by simp
  qed
  with step(1) c show ?case by (simp add: split_beta)
qed

text \<open>
  Below the threshold the stored record after the call is the pruned record followed by the
  current time; and when every call comes less than \<^verbatim>\<open>windowMs\<close> after every stored and
  every earlier timestamp, nothing is pruned and the run records the call times in order.
\<close>

lemma rateLimiter_under_record:
  assumes "cooldownStore st k = None" "keyGen cfg req = k" "\<not> skip cfg req"
    "int (length (case requestStore st k of None \<Rightarrow> [] | Some ts \<Rightarrow> ts)) < max_cfg cfg"
  shows "requestStore (snd (rateLimiter cfg req now st)) k =
           Some (filter (\<lambda>t. now - t < windowMs cfg)
                   (case requestStore st k of None \<Rightarrow> [] | Some ts \<Rightarrow> ts) @ [now])"
proof -
  let ?stored = "case requestStore st k of None \<Rightarrow> [] | Some ts \<Rightarrow> ts"
  have "length (filter (\<lambda>t. now - t < windowMs cfg) ?stored) \<le> length ?stored"
    by (rule length_filter_le)
  with assms(4)
  have "\<not> max_cfg cfg \<le> int (length (filter (\<lambda>t. now - t < windowMs cfg) ?stored))"
    by linarith
  with assms(1-3) show ?thesis
    by (simp add: rateLimiter_def checkWindow_def Let_def split: option.splits)
qed

lemma run_records:
  assumes "cooldownStore st k = None"
    and "int (length (case requestStore st k of None \<Rightarrow> [] | Some ts \<Rightarrow> ts))
           + int (length calls) \<le> max_cfg cfg"
    and "\<forall>(req, now) \<in> set calls. keyGen cfg req = k \<and> \<not> skip cfg req"
    and "sorted_wrt (\<lambda>earlier later. later - earlier < windowMs cfg) (map snd calls)"
    and "\<forall>s \<in> set (case requestStore st k of None \<Rightarrow> [] | Some ts \<Rightarrow> ts).
           \<forall>t \<in> set (map snd calls). t - s < windowMs cfg"
  shows "(case requestStore (snd (run cfg calls st)) k of None \<Rightarrow> [] | Some ts \<Rightarrow> ts) =
           (case requestStore st k of None \<Rightarrow> [] | Some ts \<Rightarrow> ts) @ map snd calls"
  using assms
proof (induction calls arbitrary: st)
  case Nil
  then show ?case by simp
next
  case (Cons c calls)
  obtain req now where c: "c = (req, now)" by (cases c)
  let ?stored = "case requestStore st k of None \<Rightarrow> [] | Some ts \<Rightarrow> ts"
  let ?st1 = "snd (rateLimiter cfg req now st)"
  from Cons.prems c have pre: "keyGen cfg req = k" "\<not> skip cfg req"
    "int (length ?stored) < max_cfg cfg"
    by auto
  from Cons.prems(5) c have "\<forall>s \<in> set ?stored. now - s < windowMs cfg" by simp
  then have "filter (\<lambda>t. now - t < windowMs cfg) ?stored = ?stored" by simp
  with rateLimiter_under_record[OF Cons.prems(1) pre, of now]
  have rec: "requestStore ?st1 k = Some (?stored @ [now])" by simp
  have "(case requestStore (snd (run cfg calls ?st1)) k of None \<Rightarrow> [] | Some ts \<Rightarrow> ts) =
          (case requestStore ?st1 k of None \<Rightarrow> [] | Some ts \<Rightarrow> ts) @ map snd calls"
  proof (rule Cons.IH)
    show "cooldownStore ?st1 k = None"
      by (rule rateLimiter_under(2)[OF Cons.prems(1) pre])
    show "int (length (case requestStore ?st1 k of None \<Rightarrow> [] | Some ts \<Rightarrow> ts))
            + int (length calls) \<le> max_cfg cfg"
      using rec Cons.prems(2) by simp
    show "\<forall>(req, now) \<in> set calls. keyGen cfg req = k \<and> \<not> skip cfg req"
      using Cons.prems(3) by simp
    show "sorted_wrt (\<lambda>earlier later. later - earlier < windowMs cfg) (map snd calls)"
      using Cons.prems(4) by simp
    show "\<forall>s \<in> set (case requestStore ?st1 k of None \<Rightarrow> [] | Some ts \<Rightarrow> ts).
            \<forall>t \<in> set (map snd calls). t - s < windowMs cfg"
      using rec Cons.prems(4,5) c by auto
  qed
  with rec c show ?case by (simp add: split_beta)
qed

lemmas eval_defs =
  rateLimiter_def checkWindow_def forget_def emptyStores_def scenarioConfig_def
  strictConfig_def closedConfig_def requestFrom_def blockedStores_def fullStores_def
  ceilSeconds_def Let_def

section \<open>The limit\<close>

text \<open>
  Claim C1. For a key with no prior state and \<^verbatim>\<open>max >= 1\<close>, a sequence of \<^verbatim>\<open>max\<close> calls of
  the middleware for that key is allowed, call after call (\<^verbatim>\<open>next()\<close> each time, whatever
  the timestamps are). When each call comes less than \<^verbatim>\<open>windowMs\<close> after every earlier one
  (as calls on a clock that does not go back do when they all lie within \<^verbatim>\<open>windowMs\<close> of
  the first), the stored window record is then the list of the \<^verbatim>\<open>max\<close> call times, and a
  following call that is still less than \<^verbatim>\<open>windowMs\<close> after each of them is refused: a
  cooldown until \<^verbatim>\<open>now + cooldownMs\<close> is stored and the answer carries the rounded-up
  seconds of \<^verbatim>\<open>cooldownMs\<close>. More generally, any following call whose pruned window still
  holds \<^verbatim>\<open>max\<close> timestamps is refused so. (\<open>sorted_wrt R ts\<close> says that \<open>R s t\<close> holds for
  every \<open>s\<close> that comes before \<open>t\<close> in the list \<open>ts\<close>.)
\<close>

theorem limit_allows_max_then_denies:
  assumes "1 \<le> max_cfg cfg"
    and "requestStore st k = None" and "cooldownStore st k = None"
    and "int (length calls) = max_cfg cfg"
    and "\<forall>(req, now) \<in> set calls. keyGen cfg req = k \<and> \<not> skip cfg req"
  shows "fst (run cfg calls st) = replicate (length calls) Next \<and>
    (sorted_wrt (\<lambda>earlier later. later - earlier < windowMs cfg) (map snd calls) \<longrightarrow>
       requestStore (snd (run cfg calls st)) k = Some (map snd calls)) \<and>
    (\<forall>req now. keyGen cfg req = k \<and> \<not> skip cfg req \<and>
       sorted_wrt (\<lambda>earlier later. later - earlier < windowMs cfg) (map snd calls @ [now]) \<longrightarrow>
       rateLimiter cfg req now (snd (run cfg calls st)) =
         (Json (statusCode cfg) (message cfg) \<lceil>real_of_int (cooldownMs cfg) / 1000\<rceil>,
          (snd (run cfg calls st))\<lparr>cooldownStore :=
             (cooldownStore (snd (run cfg calls st)))(k \<mapsto> now + cooldownMs cfg)\<rparr>)) \<and>
    (\<forall>req now ts. keyGen cfg req = k \<and> \<not> skip cfg req \<and>
       requestStore (snd (run cfg calls st)) k = Some ts \<and>
       int (length (filter (\<lambda>t. now - t < windowMs cfg) ts)) = max_cfg cfg \<longrightarrow>
       rateLimiter cfg req now (snd (run cfg calls st)) =
         (Json (statusCode cfg) (message cfg) \<lceil>real_of_int (cooldownMs cfg) / 1000\<rceil>,
          (snd (run cfg calls st))\<lparr>cooldownStore :=
             (cooldownStore (snd (run cfg calls st)))(k \<mapsto> now + cooldownMs cfg)\<rparr>))"
proof -
  let ?st' = "snd (run cfg calls st)"
  let ?P = "\<lambda>earlier later. later - earlier < windowMs cfg"
  have ru: "fst (run cfg calls st) = replicate (length calls) Next \<and>
            cooldownStore ?st' k = None"
    using assms by (intro run_under) simp_all
  have nonempty: "map snd calls \<noteq> []" using assms(1,4) by auto
  have rec: "requestStore ?st' k = Some (map snd calls)" if "sorted_wrt ?P (map snd calls)"
  proof -
    have "(case requestStore ?st' k of None \<Rightarrow> [] | Some ts \<Rightarrow> ts) =
            (case requestStore st k of None \<Rightarrow> [] | Some ts \<Rightarrow> ts) @ map snd calls"
      using assms that by (intro run_records) simp_all
    with assms(2) nonempty show ?thesis by (simp split: option.splits)
  qed
  have deny: "rateLimiter cfg req now ?st' =
         (Json (statusCode cfg) (message cfg) \<lceil>real_of_int (cooldownMs cfg) / 1000\<rceil>,
          ?st'\<lparr>cooldownStore := (cooldownStore ?st')(k \<mapsto> now + cooldownMs cfg)\<rparr>)"
    if "keyGen cfg req = k" "\<not> skip cfg req" "requestStore ?st' k = Some ts"
      "int (length (filter (\<lambda>t. now - t < windowMs cfg) ts)) = max_cfg cfg"
    for req now ts
    using ru that by (simp add: rateLimiter_def checkWindow_def Let_def ceilSeconds_def)
  have deny_in_window: "rateLimiter cfg req now ?st' =
         (Json (statusCode cfg) (message cfg) \<lceil>real_of_int (cooldownMs cfg) / 1000\<rceil>,
          ?st'\<lparr>cooldownStore := (cooldownStore ?st')(k \<mapsto> now + cooldownMs cfg)\<rparr>)"
    if k: "keyGen cfg req = k" "\<not> skip cfg req"
      and sw: "sorted_wrt ?P (map snd calls @ [now])"
    for req now
  proof -
    from sw have s1: "sorted_wrt ?P (map snd calls)"
      and s2: "\<forall>t \<in> set (map snd calls). now - t < windowMs cfg"
      by (simp_all add: sorted_wrt_append)
    from s2 have "filter (\<lambda>t. now - t < windowMs cfg) (map snd calls) = map snd calls"
      by simp
    then have "int (length (filter (\<lambda>t. now - t < windowMs cfg) (map snd calls))) = max_cfg cfg"
      using assms(4) by simp
    with k rec[OF s1] show ?thesis by (rule deny)
  qed
  from ru rec deny deny_in_window show ?thesis by blast
qed

text \<open>
  The scenario with \<^verbatim>\<open>max = 3\<close>: requests of key \<open>K\<close> at 0, 100 and 200 pass and are
  recorded, the request at 300 is refused with two seconds to wait and the cooldown ends
  at 2300.
\<close>

theorem limit_allows_max_then_denies_witness:
  "fst (run scenarioConfig
          [(requestFrom ''K'', 0), (requestFrom ''K'', 100), (requestFrom ''K'', 200)]
          emptyStores) = [Next, Next, Next] \<and>
   requestStore
     (snd (run scenarioConfig
          [(requestFrom ''K'', 0), (requestFrom ''K'', 100), (requestFrom ''K'', 200)]
          emptyStores)) ''K'' = Some [0, 100, 200] \<and>
   fst (rateLimiter scenarioConfig (requestFrom ''K'') 300
          (snd (run scenarioConfig
             [(requestFrom ''K'', 0), (requestFrom ''K'', 100), (requestFrom ''K'', 200)]
             emptyStores)))
     = Json 429 ''Rate limit exceeded. Please try again later.'' 2 \<and>
   cooldownStore
     (snd (rateLimiter scenarioConfig (requestFrom ''K'') 300
          (snd (run scenarioConfig
             [(requestFrom ''K'', 0), (requestFrom ''K'', 100), (requestFrom ''K'', 200)]
             emptyStores)))) ''K'' = Some 2300"
proof -
  let ?calls = "[(requestFrom ''K'', 0), (requestFrom ''K'', 100), (requestFrom ''K'', 200)]"
  let ?st = "snd (run scenarioConfig ?calls emptyStores)"
  have h1: "1 \<le> max_cfg scenarioConfig" by (simp add: scenarioConfig_def)
  have h2: "requestStore emptyStores ''K'' = None" by (simp add: emptyStores_def)
  have h3: "cooldownStore emptyStores ''K'' = None" by (simp add: emptyStores_def)
  have h4: "int (length ?calls) = max_cfg scenarioConfig" by (simp add: scenarioConfig_def)
  have h5: "\<forall>(req, now) \<in> set ?calls.
              keyGen scenarioConfig req = ''K'' \<and> \<not> skip scenarioConfig req"
    by (simp add: scenarioConfig_def requestFrom_def)
  have times: "map snd ?calls = [0, 100, 200]" by simp
  have in_window:
    "sorted_wrt (\<lambda>earlier later. later - earlier < windowMs scenarioConfig) (map snd ?calls)"
    by (simp add: scenarioConfig_def)
  have next_in_window:
    "sorted_wrt (\<lambda>earlier later. later - earlier < windowMs scenarioConfig)
       (map snd ?calls @ [300])"
    by (simp add: scenarioConfig_def)
  have key: "keyGen scenarioConfig (requestFrom ''K'') = ''K'' \<and>
             \<not> skip scenarioConfig (requestFrom ''K'')"
    by (simp add: scenarioConfig_def requestFrom_def)
  note main = limit_allows_max_then_denies [OF h1 h2 h3 h4 h5]
  from main have allowed: "fst (run scenarioConfig ?calls emptyStores) = [Next, Next, Next]"
    by (simp add: numeral_3_eq_3)
  from main in_window have "requestStore ?st ''K'' = Some (map snd ?calls)"
    by blast
  then have stored: "requestStore ?st ''K'' = Some [0, 100, 200]"
    unfolding times .
  have pruned: "int (length (filter (\<lambda>t. 300 - t < windowMs scenarioConfig) [0, 100, 200]))
                  = max_cfg scenarioConfig"
    by (simp add: scenarioConfig_def)
  from main key next_in_window
  have refused: "rateLimiter scenarioConfig (requestFrom ''K'') 300 ?st =
         (Json (statusCode scenarioConfig) (message scenarioConfig)
            \<lceil>real_of_int (cooldownMs scenarioConfig) / 1000\<rceil>,
          ?st\<lparr>cooldownStore := (cooldownStore ?st)(''K'' \<mapsto> 300 + cooldownMs scenarioConfig)\<rparr>)"
    by blast
  from main key stored pruned
  have "rateLimiter scenarioConfig (requestFrom ''K'') 300 ?st =
         (Json (statusCode scenarioConfig) (message scenarioConfig)
            \<lceil>real_of_int (cooldownMs scenarioConfig) / 1000\<rceil>,
          ?st\<lparr>cooldownStore := (cooldownStore ?st)(''K'' \<mapsto> 300 + cooldownMs scenarioConfig)\<rparr>)"
    by blast
  from refused
  have "fst (rateLimiter scenarioConfig (requestFrom ''K'') 300 ?st)
               = Json 429 ''Rate limit exceeded. Please try again later.'' 2"
    and "cooldownStore (snd (rateLimiter scenarioConfig (requestFrom ''K'') 300 ?st)) ''K''
               = Some 2300"
    by (simp_all add: scenarioConfig_def)
  with allowed stored show ?thesis by simp
qed

section \<open>The cooldown\<close>

text \<open>
  Claim C2. When the key of the request holds a cooldown record with
  \<^verbatim>\<open>blockedUntil - now <= 0\<close> (the exact millisecond \<^verbatim>\<open>now = blockedUntil\<close> included), the
  call does what it does from the stores in which the cooldown record and the window
  record of that key are both deleted; with \<^verbatim>\<open>max >= 1\<close> that same call is allowed, the
  cooldown record is gone and the window record of the key is the current timestamp alone.
\<close>

theorem elapsed_cooldown_resets_key:
  assumes "cooldownStore st k = Some b" and "b - now \<le> 0"
    and "\<not> skip cfg req" and "keyGen cfg req = k"
  shows "rateLimiter cfg req now st =
           rateLimiter cfg req now
             (st\<lparr>cooldownStore := (cooldownStore st)(k := None),
                 requestStore := (requestStore st)(k := None)\<rparr>) \<and>
         (1 \<le> max_cfg cfg \<longrightarrow>
            rateLimiter cfg req now st =
              (Next, st\<lparr>cooldownStore := (cooldownStore st)(k := None),
                        requestStore := (requestStore st)(k \<mapsto> [now])\<rparr>))"
  using assms by (simp add: rateLimiter_def forget_def checkWindow_def)

text \<open>Key \<open>K\<close>, blocked until 2300, asks again at 2300 exactly.\<close>

theorem elapsed_cooldown_resets_key_witness:
  "rateLimiter scenarioConfig (requestFrom ''K'') 2300 blockedStores =
     (Next, blockedStores\<lparr>cooldownStore := (cooldownStore blockedStores)(''K'' := None),
                          requestStore := (requestStore blockedStores)(''K'' \<mapsto> [2300])\<rparr>)"
proof -
  have h1: "cooldownStore blockedStores ''K'' = Some 2300" by (simp add: blockedStores_def)
  have h2: "(2300::int) - 2300 \<le> 0" by simp
  have h3: "\<not> skip scenarioConfig (requestFrom ''K'')" by (simp add: scenarioConfig_def)
  have h4: "keyGen scenarioConfig (requestFrom ''K'') = ''K''"
    by (simp add: scenarioConfig_def requestFrom_def)
  have h5: "1 \<le> max_cfg scenarioConfig" by (simp add: scenarioConfig_def)
  from elapsed_cooldown_resets_key [OF h1 h2 h3 h4] h5 show ?thesis by blast
qed

text \<open>
  Claim C3. While a key holds a cooldown record with \<^verbatim>\<open>blockedUntil - now > 0\<close>, calls of the
  middleware for that key, however many, at times earlier than \<^verbatim>\<open>blockedUntil\<close> leave both
  stores exactly as they were: the stored \<^verbatim>\<open>blockedUntil\<close> is not changed, and no window
  record of any key is pruned, extended or created.
\<close>

theorem active_cooldown_changes_nothing:
  assumes "cooldownStore st k = Some b"
    and "\<forall>(req, now) \<in> set calls. keyGen cfg req = k \<and> 0 < b - now"
  shows "snd (run cfg calls st) = st"
  using assms
proof (induction calls)
  case Nil
  then show ?case by simp
next
  case (Cons c calls)
  obtain req now where c: "c = (req, now)" by (cases c)
  from Cons.prems c have "snd (rateLimiter cfg req now st) = st"
    by (auto intro: rateLimiter_blocked)
  moreover from Cons have "snd (run cfg calls st) = st" by simp
  ultimately show ?case using c
    by (simp add: split_beta Let_def)
qed

text \<open>Key \<open>K\<close>, blocked until 2300, asks at 1000 and at 2299.\<close>

theorem active_cooldown_changes_nothing_witness:
  "snd (run scenarioConfig [(requestFrom ''K'', 1000), (requestFrom ''K'', 2299)] blockedStores)
     = blockedStores"
proof -
  have h1: "cooldownStore blockedStores ''K'' = Some 2300" by (simp add: blockedStores_def)
  have h2: "\<forall>(req, now) \<in> set [(requestFrom ''K'', 1000), (requestFrom ''K'', 2299)].
              keyGen scenarioConfig req = ''K'' \<and> 0 < (2300::int) - now"
    by (simp add: scenarioConfig_def requestFrom_def)
  from active_cooldown_changes_nothing [OF h1 h2] show ?thesis .
qed

section \<open>The window records\<close>

text \<open>
  Claim C4, as the code has it. Take stores reached from the empty stores by calls of the
  middleware, a positive \<^verbatim>\<open>windowMs\<close> and a request that is not bypassed. When the key is
  not under an active cooldown (no record, or \<^verbatim>\<open>blockedUntil - now <= 0\<close>), the key has a
  stored window record after the call and every timestamp \<open>t\<close> in it satisfies
  \<^verbatim>\<open>now - t < windowMs\<close>, whether the request was allowed or refused at the threshold. When
  the key is under an active cooldown (\<^verbatim>\<open>blockedUntil - now > 0\<close>), the call leaves the
  request store as it was, so nothing is pruned.
\<close>

theorem stored_window_pruned_unless_blocked:
  assumes "st = snd (run cfg calls emptyStores)" and "\<not> skip cfg req" and "0 < windowMs cfg"
  shows "(\<not> (\<exists>b. cooldownStore st (keyGen cfg req) = Some b \<and> 0 < b - now) \<longrightarrow>
           (\<exists>ts. requestStore (snd (rateLimiter cfg req now st)) (keyGen cfg req) = Some ts \<and>
                 (\<forall>t \<in> set ts. now - t < windowMs cfg))) \<and>
         ((\<exists>b. cooldownStore st (keyGen cfg req) = Some b \<and> 0 < b - now) \<longrightarrow>
           requestStore (snd (rateLimiter cfg req now st)) = requestStore st)"
proof -
  have wb: "windowsBounded cfg st"
    unfolding assms(1) by (rule run_windowsBounded[OF windowsBounded_empty])
  have "windowsBounded cfg (forget (keyGen cfg req) st)"
    using wb by (rule forget_windowsBounded)
  note fresh = checkWindow_fresh[OF wb assms(3), of "keyGen cfg req" now]
    checkWindow_fresh[OF this assms(3), of "keyGen cfg req" now]
  show ?thesis using assms(2) fresh
    by (auto simp add: rateLimiter_def Let_def split: option.splits)
qed

text \<open>
  Key \<open>K\<close> after requests at 0 and 100 asks at 200 and is allowed: the stored record is
  0, 100, 200, all within the window. After the refusal at 300 it asks at 1000, under the
  cooldown: the request store stays as it is.
\<close>

theorem stored_window_pruned_unless_blocked_witness:
  "requestStore
     (snd (rateLimiter scenarioConfig (requestFrom ''K'') 200
        (snd (run scenarioConfig [(requestFrom ''K'', 0), (requestFrom ''K'', 100)] emptyStores))))
     ''K'' = Some [0, 100, 200] \<and>
   200 - 0 < windowMs scenarioConfig \<and> 200 - 100 < windowMs scenarioConfig \<and>
   200 - 200 < windowMs scenarioConfig \<and>
   requestStore
     (snd (rateLimiter scenarioConfig (requestFrom ''K'') 1000
        (snd (run scenarioConfig
           [(requestFrom ''K'', 0), (requestFrom ''K'', 100), (requestFrom ''K'', 200),
            (requestFrom ''K'', 300)] emptyStores)))) =
   requestStore
     (snd (run scenarioConfig
        [(requestFrom ''K'', 0), (requestFrom ''K'', 100), (requestFrom ''K'', 200),
         (requestFrom ''K'', 300)] emptyStores))"
proof -
  let ?st2 = "snd (run scenarioConfig [(requestFrom ''K'', 0), (requestFrom ''K'', 100)]
                emptyStores)"
  let ?st4 = "snd (run scenarioConfig
                [(requestFrom ''K'', 0), (requestFrom ''K'', 100), (requestFrom ''K'', 200),
                 (requestFrom ''K'', 300)] emptyStores)"
  have h2: "\<not> skip scenarioConfig (requestFrom ''K'')" by (simp add: scenarioConfig_def)
  have h3: "0 < windowMs scenarioConfig" by (simp add: scenarioConfig_def)
  have k: "keyGen scenarioConfig (requestFrom ''K'') = ''K''"
    by (simp add: scenarioConfig_def requestFrom_def)
  have free: "\<not> (\<exists>b. cooldownStore ?st2 (keyGen scenarioConfig (requestFrom ''K'')) = Some b
                   \<and> 0 < b - 200)"
    by (simp add: eval_defs)
  have blocked: "\<exists>b. cooldownStore ?st4 (keyGen scenarioConfig (requestFrom ''K'')) = Some b
                   \<and> 0 < b - 1000"
    by (simp add: eval_defs)
  have stored: "requestStore (snd (rateLimiter scenarioConfig (requestFrom ''K'') 200 ?st2)) ''K''
                  = Some [0, 100, 200]"
    by (simp add: eval_defs)
  from stored_window_pruned_unless_blocked [OF refl h2 h3, of "[(requestFrom ''K'', 0), (requestFrom ''K'', 100)]" 200] free
  obtain ts where ts:
    "requestStore (snd (rateLimiter scenarioConfig (requestFrom ''K'') 200 ?st2)) ''K'' = Some ts"
    and fresh: "\<forall>t \<in> set ts. 200 - t < windowMs scenarioConfig"
    unfolding k by blast
  from ts stored have "ts = [0, 100, 200]" by simp
  with fresh have a: "200 - 0 < windowMs scenarioConfig \<and>
     200 - 100 < windowMs scenarioConfig \<and> 200 - 200 < windowMs scenarioConfig"
    by simp
  from stored_window_pruned_unless_blocked [OF refl h2 h3,
      of "[(requestFrom ''K'', 0), (requestFrom ''K'', 100), (requestFrom ''K'', 200),
           (requestFrom ''K'', 300)]" 1000] blocked
  have b: "requestStore (snd (rateLimiter scenarioConfig (requestFrom ''K'') 1000 ?st4))
             = requestStore ?st4"
    by blast
  from stored a b show ?thesis by blast
qed

text \<open>
  The claim as it was written fails under an active cooldown. With one request a second
  and five seconds of cooldown, key \<open>K\<close> is allowed at 0 and refused at 500 (blocked until
  5500); the call at 2000 is refused with four seconds to wait, and the stored record
  still holds the timestamp 0, which is 2000 milliseconds old.
\<close>

theorem stored_window_pruned_counterexample:
  "fst (rateLimiter strictConfig (requestFrom ''K'') 2000
          (snd (run strictConfig [(requestFrom ''K'', 0), (requestFrom ''K'', 500)] emptyStores)))
     = Json 429 ''Rate limit exceeded. Please try again later.'' 4 \<and>
   requestStore
     (snd (rateLimiter strictConfig (requestFrom ''K'') 2000
          (snd (run strictConfig [(requestFrom ''K'', 0), (requestFrom ''K'', 500)] emptyStores))))
     ''K'' = Some [0] \<and>
   \<not> (2000 - 0 < windowMs strictConfig)"
  by (simp add: eval_defs)

text \<open>
  Claim C5. For every configuration with \<^verbatim>\<open>max >= 0\<close> and every sequence of calls of the
  middleware from the empty stores, after each call (after the first \<open>n\<close> calls, for
  every \<open>n\<close>) every window record in \<^verbatim>\<open>requestStore\<close> holds at most \<^verbatim>\<open>max\<close> timestamps.
\<close>

theorem window_record_at_most_max:
  assumes "0 \<le> max_cfg cfg"
    and "requestStore (snd (run cfg (take n calls) emptyStores)) k = Some ts"
  shows "int (length ts) \<le> max_cfg cfg"
  using run_windowsBounded[OF windowsBounded_empty, of cfg "take n calls"] assms
  unfolding windowsBounded_def by fastforce

text \<open>After the first four of six calls of key \<open>K\<close> the record holds three timestamps.\<close>

theorem window_record_at_most_max_witness:
  "requestStore
     (snd (run scenarioConfig
        (take 4 [(requestFrom ''K'', 0), (requestFrom ''K'', 100), (requestFrom ''K'', 200),
                 (requestFrom ''K'', 300), (requestFrom ''K'', 1000), (requestFrom ''K'', 2500)])
        emptyStores)) ''K'' = Some [0, 100, 200] \<and>
   int (length [0, 100, 200 :: int]) \<le> max_cfg scenarioConfig"
proof -
  have h1: "0 \<le> max_cfg scenarioConfig" by (simp add: scenarioConfig_def)
  have h2: "requestStore
     (snd (run scenarioConfig
        (take 4 [(requestFrom ''K'', 0), (requestFrom ''K'', 100), (requestFrom ''K'', 200),
                 (requestFrom ''K'', 300), (requestFrom ''K'', 1000), (requestFrom ''K'', 2500)])
        emptyStores)) ''K'' = Some [0, 100, 200]"
    by (simp add: eval_defs)
  from window_record_at_most_max [OF h1 h2] h2 show ?thesis by blast
qed

section \<open>The answer of a refusal\<close>

text \<open>
  Claim C6. Every refusal carries as \<^verbatim>\<open>remainingTime\<close> the ceiling of
  \<^verbatim>\<open>(blockedUntil - now) / 1000\<close>, where \<^verbatim>\<open>blockedUntil\<close> is the cooldown record of the key
  when the call ends; with \<^verbatim>\<open>cooldownMs >= 1\<close> that integer is at least 1, under an active
  cooldown and at the threshold alike.
\<close>

theorem remainingTime_is_ceiling:
  assumes "fst (rateLimiter cfg req now st) = Json s m r"
  shows "\<exists>b. cooldownStore (snd (rateLimiter cfg req now st)) (keyGen cfg req) = Some b \<and>
             r = \<lceil>real_of_int (b - now) / 1000\<rceil> \<and>
             (1 \<le> cooldownMs cfg \<longrightarrow> 1 \<le> r)"
  using assms ceilSeconds_pos[of "cooldownMs cfg"] ceilSeconds_pos
  by (auto simp add: rateLimiter_def forget_def checkWindow_def Let_def ceilSeconds_def
      split: if_splits option.splits)

text \<open>
  Key \<open>K\<close> at the threshold at 300 (blocked until 2300, two seconds), and under the
  cooldown at 1000 (1300 milliseconds left, two seconds).
\<close>

theorem remainingTime_is_ceiling_witness:
  "fst (rateLimiter scenarioConfig (requestFrom ''K'') 300 fullStores)
     = Json 429 ''Rate limit exceeded. Please try again later.'' 2 \<and>
   cooldownStore (snd (rateLimiter scenarioConfig (requestFrom ''K'') 300 fullStores)) ''K''
     = Some 2300 \<and>
   (2::int) = \<lceil>real_of_int (2300 - 300) / 1000\<rceil> \<and>
   fst (rateLimiter scenarioConfig (requestFrom ''K'') 1000 blockedStores)
     = Json 429 ''Rate limit exceeded. Please try again later.'' 2 \<and>
   cooldownStore (snd (rateLimiter scenarioConfig (requestFrom ''K'') 1000 blockedStores)) ''K''
     = Some 2300 \<and>
   (2::int) = \<lceil>real_of_int (2300 - 1000) / 1000\<rceil>"
proof -
  have k: "keyGen scenarioConfig (requestFrom ''K'') = ''K''"
    by (simp add: scenarioConfig_def requestFrom_def)
  have c: "1 \<le> cooldownMs scenarioConfig" by (simp add: scenarioConfig_def)
  have d1: "fst (rateLimiter scenarioConfig (requestFrom ''K'') 300 fullStores)
              = Json 429 ''Rate limit exceeded. Please try again later.'' 2"
    by (simp add: eval_defs)
  have d2: "fst (rateLimiter scenarioConfig (requestFrom ''K'') 1000 blockedStores)
              = Json 429 ''Rate limit exceeded. Please try again later.'' 2"
    by (simp add: eval_defs)
  have s1: "cooldownStore (snd (rateLimiter scenarioConfig (requestFrom ''K'') 300 fullStores))
              ''K'' = Some 2300"
    by (simp add: eval_defs)
  have s2: "cooldownStore (snd (rateLimiter scenarioConfig (requestFrom ''K'') 1000 blockedStores))
              ''K'' = Some 2300"
    by (simp add: eval_defs)
  from remainingTime_is_ceiling [OF d1] s1
  have r1: "(2::int) = \<lceil>real_of_int (2300 - 300) / 1000\<rceil>"
    unfolding k by auto
  from remainingTime_is_ceiling [OF d2] s2
  have r2: "(2::int) = \<lceil>real_of_int (2300 - 1000) / 1000\<rceil>"
    unfolding k by auto
  from d1 d2 s1 s2 r1 r2 show ?thesis by blast
qed

section \<open>Keys are independent\<close>

text \<open>
  Claim C7. A call of the middleware whose key is \<open>A\<close> leaves the entries of every other
  key \<open>B\<close> in both stores as they were; and it depends on the stores through the entries
  of \<open>A\<close> alone: from two states that agree on the two entries of \<open>A\<close>, whatever they hold
  for other keys, the call gives the same decision and the same new entries for \<open>A\<close>.
\<close>

theorem key_isolation:
  "(B \<noteq> keyGen cfg req \<longrightarrow>
      requestStore (snd (rateLimiter cfg req now st)) B = requestStore st B \<and>
      cooldownStore (snd (rateLimiter cfg req now st)) B = cooldownStore st B) \<and>
   (requestStore st1 (keyGen cfg req) = requestStore st2 (keyGen cfg req) \<and>
    cooldownStore st1 (keyGen cfg req) = cooldownStore st2 (keyGen cfg req) \<longrightarrow>
      fst (rateLimiter cfg req now st1) = fst (rateLimiter cfg req now st2) \<and>
      requestStore (snd (rateLimiter cfg req now st1)) (keyGen cfg req) =
        requestStore (snd (rateLimiter cfg req now st2)) (keyGen cfg req) \<and>
      cooldownStore (snd (rateLimiter cfg req now st1)) (keyGen cfg req) =
        cooldownStore (snd (rateLimiter cfg req now st2)) (keyGen cfg req))"
proof (intro conjI impI)
  assume "B \<noteq> keyGen cfg req"
  then show "requestStore (snd (rateLimiter cfg req now st)) B = requestStore st B"
    by (auto simp add: rateLimiter_def forget_def checkWindow_def Let_def
        split: if_splits option.splits)
next
  assume "B \<noteq> keyGen cfg req"
  then show "cooldownStore (snd (rateLimiter cfg req now st)) B = cooldownStore st B"
    by (auto simp add: rateLimiter_def forget_def checkWindow_def Let_def
        split: if_splits option.splits)
next
  assume agree: "requestStore st1 (keyGen cfg req) = requestStore st2 (keyGen cfg req) \<and>
    cooldownStore st1 (keyGen cfg req) = cooldownStore st2 (keyGen cfg req)"
  then show "fst (rateLimiter cfg req now st1) = fst (rateLimiter cfg req now st2)"
    by (auto simp add: rateLimiter_def forget_def checkWindow_def Let_def
        split: if_splits option.splits)
  from agree
  show "requestStore (snd (rateLimiter cfg req now st1)) (keyGen cfg req) =
        requestStore (snd (rateLimiter cfg req now st2)) (keyGen cfg req)"
    by (auto simp add: rateLimiter_def forget_def checkWindow_def Let_def
        split: if_splits option.splits)
  from agree
  show "cooldownStore (snd (rateLimiter cfg req now st1)) (keyGen cfg req) =
        cooldownStore (snd (rateLimiter cfg req now st2)) (keyGen cfg req)"
    by (auto simp add: rateLimiter_def forget_def checkWindow_def Let_def
        split: if_splits option.splits)
qed

text \<open>
  Key \<open>A\<close> asks at 100 beside a blocked key \<open>B\<close>: the entries of \<open>B\<close> stay, and the
  decision and the new window record of \<open>A\<close> are those of the stores without \<open>B\<close>.
\<close>

theorem key_isolation_witness:
  "requestStore (snd (rateLimiter scenarioConfig (requestFrom ''A'') 100 twoKeyStores)) ''B''
     = requestStore twoKeyStores ''B'' \<and>
   cooldownStore (snd (rateLimiter scenarioConfig (requestFrom ''A'') 100 twoKeyStores)) ''B''
     = cooldownStore twoKeyStores ''B'' \<and>
   fst (rateLimiter scenarioConfig (requestFrom ''A'') 100 twoKeyStores)
     = fst (rateLimiter scenarioConfig (requestFrom ''A'') 100 oneKeyStores) \<and>
   requestStore (snd (rateLimiter scenarioConfig (requestFrom ''A'') 100 twoKeyStores)) ''A''
     = requestStore (snd (rateLimiter scenarioConfig (requestFrom ''A'') 100 oneKeyStores)) ''A''"
proof -
  have k: "keyGen scenarioConfig (requestFrom ''A'') = ''A''"
    by (simp add: scenarioConfig_def requestFrom_def)
  have other: "''B'' \<noteq> keyGen scenarioConfig (requestFrom ''A'')"
    by (simp add: k)
  have agree:
    "requestStore twoKeyStores (keyGen scenarioConfig (requestFrom ''A''))
       = requestStore oneKeyStores (keyGen scenarioConfig (requestFrom ''A'')) \<and>
     cooldownStore twoKeyStores (keyGen scenarioConfig (requestFrom ''A''))
       = cooldownStore oneKeyStores (keyGen scenarioConfig (requestFrom ''A''))"
    by (simp add: k twoKeyStores_def oneKeyStores_def)
  from key_isolation [of "''B''" scenarioConfig "requestFrom ''A''" 100 twoKeyStores
      twoKeyStores oneKeyStores] other agree
  show ?thesis unfolding k by blast
qed

section \<open>Degenerate limits and the dispatch\<close>

text \<open>
  Claim C8. With \<^verbatim>\<open>max <= 0\<close> every request that is not bypassed is refused, from any
  stores whatever, so also the first request ever seen for a key and every request made
  while a cooldown is active; and when the key has no cooldown record, the (empty or not)
  pruned window already reaches \<^verbatim>\<open>max\<close> and the call stores a cooldown with
  \<^verbatim>\<open>blockedUntil = now + cooldownMs\<close> and answers with the rounded-up seconds of
  \<^verbatim>\<open>cooldownMs\<close>.
\<close>

theorem nonpositive_max_denies_all:
  assumes "max_cfg cfg \<le> 0" and "\<not> skip cfg req"
  shows "(\<exists>s m r. fst (rateLimiter cfg req now st) = Json s m r) \<and>
    (cooldownStore st (keyGen cfg req) = None \<longrightarrow>
       fst (rateLimiter cfg req now st) =
         Json (statusCode cfg) (message cfg) \<lceil>real_of_int (cooldownMs cfg) / 1000\<rceil> \<and>
       cooldownStore (snd (rateLimiter cfg req now st)) (keyGen cfg req) =
         Some (now + cooldownMs cfg))"
  using assms
  by (auto simp add: rateLimiter_def forget_def checkWindow_def Let_def ceilSeconds_def
      split: if_splits option.splits)

text \<open>With \<^verbatim>\<open>max = 0\<close> the first request of key \<open>K\<close>, at time 0, is refused until 2000.\<close>

theorem nonpositive_max_denies_all_witness:
  "fst (rateLimiter closedConfig (requestFrom ''K'') 0 emptyStores)
     = Json 429 ''Rate limit exceeded. Please try again later.'' 2 \<and>
   cooldownStore (snd (rateLimiter closedConfig (requestFrom ''K'') 0 emptyStores)) ''K''
     = Some 2000"
proof -
  have h1: "max_cfg closedConfig \<le> 0" by (simp add: closedConfig_def)
  have h2: "\<not> skip closedConfig (requestFrom ''K'')" by (simp add: closedConfig_def)
  have k: "keyGen closedConfig (requestFrom ''K'') = ''K''"
    by (simp add: closedConfig_def requestFrom_def)
  have h3: "cooldownStore emptyStores (keyGen closedConfig (requestFrom ''K'')) = None"
    by (simp add: emptyStores_def)
  from nonpositive_max_denies_all [OF h1 h2, of 0 emptyStores] h3
  have "fst (rateLimiter closedConfig (requestFrom ''K'') 0 emptyStores) =
          Json (statusCode closedConfig) (message closedConfig)
            \<lceil>real_of_int (cooldownMs closedConfig) / 1000\<rceil> \<and>
        cooldownStore (snd (rateLimiter closedConfig (requestFrom ''K'') 0 emptyStores))
          (keyGen closedConfig (requestFrom ''K'')) = Some (0 + cooldownMs closedConfig)"
    by blast
  then show ?thesis unfolding k by (simp add: closedConfig_def)
qed

text \<open>
  Claim C9. \<^verbatim>\<open>rateLimit(obj)\<close> returns the Express limiter made from \<^verbatim>\<open>obj\<close> when
  \<^verbatim>\<open>obj.framework\<close> is the string \<^verbatim>\<open>"express"\<close>; for every other value of
  \<^verbatim>\<open>obj.framework\<close> it returns \<^verbatim>\<open>undefined\<close>, no middleware, and raises nothing.
\<close>

theorem rateLimit_dispatch:
  "(framework obj = JString ''express'' \<longrightarrow> rateLimit obj = Some (createExpressLimiter obj)) \<and>
   (framework obj \<noteq> JString ''express'' \<longrightarrow> rateLimit obj = None)"
  by (simp add: rateLimit_def)

text \<open>The options of the scenario, then with another framework name, then with none.\<close>

theorem rateLimit_dispatch_witness:
  "rateLimit expressOptions = Some (createExpressLimiter expressOptions) \<and>
   rateLimit (expressOptions\<lparr>framework := JString ''fastify''\<rparr>) = None \<and>
   rateLimit (expressOptions\<lparr>framework := JUndefined\<rparr>) = None"
proof -
  have a: "framework expressOptions = JString ''express''" by (simp add: expressOptions_def)
  have b: "framework (expressOptions\<lparr>framework := JString ''fastify''\<rparr>) \<noteq> JString ''express''"
    by simp
  have c: "framework (expressOptions\<lparr>framework := JUndefined\<rparr>) \<noteq> JString ''express''"
    by simp
  from rateLimit_dispatch [of expressOptions] a
    rateLimit_dispatch [of "expressOptions\<lparr>framework := JString ''fastify''\<rparr>"] b
    rateLimit_dispatch [of "expressOptions\<lparr>framework := JUndefined\<rparr>"] c
  show ?thesis by blast
qed

section \<open>Refused requests are not recorded\<close>

text \<open>
  Claim C10. With \<^verbatim>\<open>max >= 1\<close>, a call that refuses the request (under an active cooldown
  or at the threshold) leaves \<^verbatim>\<open>requestStore\<close> as it was, so the refused request's
  timestamp is not appended; a call that changes \<^verbatim>\<open>requestStore\<close> has allowed the request,
  and the window record of its key then ends with the current timestamp.
\<close>

theorem denial_keeps_window_record:
  assumes "1 \<le> max_cfg cfg"
  shows "(fst (rateLimiter cfg req now st) \<noteq> Next \<longrightarrow>
            requestStore (snd (rateLimiter cfg req now st)) = requestStore st) \<and>
         (requestStore (snd (rateLimiter cfg req now st)) \<noteq> requestStore st \<longrightarrow>
            fst (rateLimiter cfg req now st) = Next \<and>
            (\<exists>ts. requestStore (snd (rateLimiter cfg req now st)) (keyGen cfg req)
                    = Some (ts @ [now])))"
  using assms
  by (auto simp add: rateLimiter_def forget_def checkWindow_def Let_def
      split: if_splits option.splits)

text \<open>
  Key \<open>K\<close> with a full window is refused at 300 and the request store stays; its first
  request, at 0, changes the request store and is allowed.
\<close>

theorem denial_keeps_window_record_witness:
  "requestStore (snd (rateLimiter scenarioConfig (requestFrom ''K'') 300 fullStores))
     = requestStore fullStores \<and>
   fst (rateLimiter scenarioConfig (requestFrom ''K'') 0 emptyStores) = Next"
proof -
  have h: "1 \<le> max_cfg scenarioConfig" by (simp add: scenarioConfig_def)
  have denied: "fst (rateLimiter scenarioConfig (requestFrom ''K'') 300 fullStores) \<noteq> Next"
    by (simp add: eval_defs)
  have "requestStore (snd (rateLimiter scenarioConfig (requestFrom ''K'') 0 emptyStores)) ''K''
          \<noteq> requestStore emptyStores ''K''"
    by (simp add: eval_defs)
  then have changed:
    "requestStore (snd (rateLimiter scenarioConfig (requestFrom ''K'') 0 emptyStores))
       \<noteq> requestStore emptyStores"
    by metis
  from denial_keeps_window_record [OF h, of "requestFrom ''K''" 300 fullStores] denied
    denial_keeps_window_record [OF h, of "requestFrom ''K''" 0 emptyStores] changed
  show ?thesis by blast
qed

end
